theory Spec2Isabelle
  imports Main "HOL-Library.Finite_Map" "HOL-Library.Word"
begin

section \<open>Python values and dictionaries\<close>

text \<open>
  The Python values that a metric description can carry. A float is carried as its 64-bit
  IEEE pattern (no arithmetic is ever done on it), a \<open>dict\<close> value is the labels
  dictionary (\<open>dict[str, str]\<close>), and \<open>PType\<close> is a type object, as produced by
  \<open>type(value)\<close>, represented by the name of the type.
\<close>

text \<open>
  Modelled from the spec: \<open>metric_types.MetricType\<close> is not among the sources. A member
  of that enumeration is \<open>PEnum v\<close>, where \<open>v\<close> is the string that its \<open>.value\<close>
  attribute returns ("that enumeration's associated string value").
\<close>

datatype pyval =
    PNone
  | PBool bool
  | PInt int
  | PFloat "64 word"
  | PStr string
  | PList "pyval list"
  | PTuple "pyval list"
  | PDict "(string, string) fmap"
  | PType string
  | PEnum string

type_synonym pydict = "(string, pyval) fmap"

section \<open>api/metrics.py: record_metrics\<close>

text \<open>
  The dictionaries of \<open>metrics_data\<close> are objects shared with the caller: the loop
  appends the very same objects to \<open>processed_metrics_data\<close> after assigning to their
  keys. The model therefore has a store from object addresses to dictionaries, and
  \<open>metrics_data\<close> is a list of addresses.
\<close>

type_synonym addr = nat
type_synonym store = "addr \<Rightarrow> pydict"

text \<open>\<open>d.get(k)\<close>: the value at the key, Python's \<open>None\<close> when the key is missing.\<close>

definition dict_get :: "pydict \<Rightarrow> string \<Rightarrow> pyval" where
  "dict_get d k = (case fmlookup d k of None \<Rightarrow> PNone | Some v \<Rightarrow> v)"

text \<open>\<open>d[k] = v\<close> on the object at address \<open>a\<close>.\<close>

definition setitem :: "store \<Rightarrow> addr \<Rightarrow> string \<Rightarrow> pyval \<Rightarrow> store" where
  "setitem h a k v = h(a := fmupd k v (h a))"

text \<open>The body of the \<open>for metric_info in metrics_data\<close> loop, up to the append.\<close>

definition record_metrics_body :: "int option \<Rightarrow> store \<Rightarrow> addr \<Rightarrow> store" where
  "record_metrics_body step h metric_info =
     (let metric_name = dict_get (h metric_info) ''metric_name'';
          h1 = (case metric_name of
                  PEnum v \<Rightarrow> setitem h metric_info ''metric_name'' (PStr v)
                | _ \<Rightarrow> h)
      in case step of
           None \<Rightarrow> h1
         | Some s \<Rightarrow>
             if ''step'' |\<notin>| fmdom (h1 metric_info)
             then setitem h1 metric_info ''step'' (PInt s)
             else h1)"

fun record_metrics_loop ::
  "int option \<Rightarrow> addr list \<Rightarrow> store \<times> addr list \<Rightarrow> store \<times> addr list" where
  "record_metrics_loop step [] (h, processed_metrics_data) = (h, processed_metrics_data)"
| "record_metrics_loop step (metric_info # rest) (h, processed_metrics_data) =
     record_metrics_loop step rest
       (record_metrics_body step h metric_info, processed_metrics_data @ [metric_info])"

text \<open>
  \<open>record_metrics\<close> ends by handing \<open>processed_metrics_data\<close> and the flag to
  \<open>_metrics_recorder.record_metrics\<close>, which belongs to \<open>core.metrics\<close> and is not among
  the sources. The model returns what the call has done up to that point: the store, and
  the two arguments of the delegation.
\<close>

definition record_metrics ::
  "store \<Rightarrow> addr list \<Rightarrow> bool \<Rightarrow> int option \<Rightarrow> store \<times> addr list \<times> bool" where
  "record_metrics h metrics_data record_on_all_hosts step =
     (case record_metrics_loop step metrics_data (h, []) of
        (h', processed_metrics_data) \<Rightarrow> (h', processed_metrics_data, record_on_all_hosts))"

text \<open>The store after the call, and the list handed to the recorder.\<close>

definition store_after :: "store \<times> addr list \<times> bool \<Rightarrow> store" where
  "store_after r = fst r"

definition handed_over :: "store \<times> addr list \<times> bool \<Rightarrow> addr list" where
  "handed_over r = fst (snd r)"

section \<open>clients/logging_client.py: LoggingClient.write_metrics\<close>

subsection \<open>Data\<close>

text \<open>
  A metric dictionary, as \<open>write_metrics\<close> reads it. \<open>metric["metric_name"]\<close> and
  \<open>metric["value"]\<close> index the dictionary, so a missing key matters: the field is
  \<open>None\<close> when the key is missing. \<open>step\<close> and \<open>labels\<close> are read with \<open>.get\<close>,
  which does not tell a missing key from a stored \<open>None\<close>: the field holds what
  \<open>.get\<close> returns. The types are those of \<open>write_metric\<close>'s signature
  (\<open>metric_name: str\<close>, \<open>step: Optional[int]\<close>, \<open>labels: Optional[dict[str, str]]\<close>),
  except for the value, whose run-time type the code itself inspects.
\<close>

record metric =
  m_metric_name :: "string option"
  m_value :: "pyval option"
  m_step :: "int option"
  m_labels :: "(string, string) fmap option"

text \<open>\<open>resource.Resource(type=..., labels=...)\<close>.\<close>

record resource =
  r_type :: string
  r_labels :: "(string, string) fmap"

text \<open>What \<open>batch.log_struct(payload, severity=..., timestamp=..., resource=...)\<close> adds.\<close>

record entry =
  e_payload :: pydict
  e_severity :: string
  e_timestamp :: nat
  e_resource :: resource

text \<open>
  A record of the module's \<open>logger\<close>: level, format string and arguments, as Python's
  logging keeps them.
\<close>

datatype level = WARNING | INFO

datatype log_record = LogRecord level string "pyval list"

text \<open>
  The exceptions that can end the \<open>try\<close> block: the \<open>KeyError\<close> of a missing key, and
  whatever the sink raises at the flush, kept as the text that \<open>str\<close> gives for it.
\<close>

datatype exn = KeyError string | SinkError string

text \<open>\<open>str(e)\<close>: for a \<open>KeyError\<close> the key in quotes.\<close>

fun exn_str :: "exn \<Rightarrow> string" where
  "exn_str (KeyError k) = [CHR 0x27] @ k @ [CHR 0x27]"
| "exn_str (SinkError s) = s"

text \<open>\<open>exceptions.MLDiagnosticError(message) from e\<close>: the message and the cause.\<close>

datatype error = MLDiagnosticError string exn

text \<open>The fields of \<open>self\<close> that \<open>write_metrics\<close> reads.\<close>

record logging_client =
  project_id :: string
  log_name :: string

text \<open>
  The state outside the call: how many times the clock has been read, the records of the
  module's logger, and the entries that the sink holds.
\<close>

record world =
  w_ticks :: nat
  w_log :: "log_record list"
  w_persisted :: "entry list"

text \<open>
  The surroundings that the call cannot control: what the clock shows at each reading, and
  whether the sink accepts a flush (\<open>None\<close>) or fails with an exception.
\<close>

record env =
  clock :: "nat \<Rightarrow> nat"
  flush :: "entry list \<Rightarrow> exn option"

subsection \<open>The collaborators\<close>

text \<open>\<open>datetime.datetime.now(datetime.timezone.utc)\<close>: one reading of the clock.\<close>

definition datetime_now :: "env \<Rightarrow> world \<Rightarrow> nat \<times> world" where
  "datetime_now ev w = (clock ev (w_ticks w), w\<lparr>w_ticks := w_ticks w + 1\<rparr>)"

text \<open>
  Modelled from the spec: the batch scope of the sink (\<open>self.logger.batch()\<close> of the
  cloud logging library) is not among the sources. By sections 4.4 and 6 of the spec,
  appending an entry performs no call to the sink, a successful exit of the scope flushes
  all accumulated entries as one call, a failing flush persists nothing, and an abnormal
  exit discards the batch.
\<close>

definition batch_commit :: "env \<Rightarrow> entry list \<Rightarrow> world \<Rightarrow> exn + world" where
  "batch_commit ev batch w =
     (case flush ev batch of
        Some e \<Rightarrow> Inl e
      | None \<Rightarrow> Inr (w\<lparr>w_persisted := w_persisted w @ batch\<rparr>))"

subsection \<open>Formatting the sample index\<close>

text \<open>What an f-string makes of a non-negative \<open>int\<close>: its decimal digits.\<close>

definition digit_char :: "nat \<Rightarrow> char" where
  "digit_char d = ''0123456789'' ! d"

fun str_nat :: "nat \<Rightarrow> string" where
  "str_nat n = (if n < 10 then [digit_char n]
                else str_nat (n div 10) @ [digit_char (n mod 10)])"

declare str_nat.simps [simp del]

text \<open>Reading decimal digits back, to state that \<open>str_nat\<close> is the decimal notation.\<close>

definition digit_val :: "char \<Rightarrow> nat" where
  "digit_val c = of_char c - 48"

definition read_nat :: "string \<Rightarrow> nat" where
  "read_nat s = foldl (\<lambda>a c. 10 * a + digit_val c) 0 s"

subsection \<open>The loop body\<close>

text \<open>
  \<open>isinstance(value, (int, float))\<close> (a \<open>bool\<close> is an \<open>int\<close> in Python) and
  \<open>isinstance(value, list)\<close>, with the \<open>payload_values\<close> of each branch; \<open>None\<close> is
  the \<open>else\<close> branch.
\<close>

fun payload_values_of :: "pyval \<Rightarrow> pyval list option" where
  "payload_values_of (PInt i) = Some [PInt i]"
| "payload_values_of (PBool b) = Some [PBool b]"
| "payload_values_of (PFloat f) = Some [PFloat f]"
| "payload_values_of (PList xs) = Some xs"
| "payload_values_of _ = None"

text \<open>\<open>type(value)\<close>.\<close>

fun type_of :: "pyval \<Rightarrow> pyval" where
  "type_of PNone = PType ''NoneType''"
| "type_of (PBool _) = PType ''bool''"
| "type_of (PInt _) = PType ''int''"
| "type_of (PFloat _) = PType ''float''"
| "type_of (PStr _) = PType ''str''"
| "type_of (PList _) = PType ''list''"
| "type_of (PTuple _) = PType ''tuple''"
| "type_of (PDict _) = PType ''dict''"
| "type_of (PType _) = PType ''type''"
| "type_of (PEnum _) = PType ''MetricType''"

text \<open>
  The \<open>accelerator_labels\<close> step: \<open>labels\<close> is truthy (not \<open>None\<close>, not empty) and has
  both keys; then one string per sample, numbered by \<open>enumerate\<close>.
\<close>

definition accelerator_labels :: "string \<Rightarrow> string \<Rightarrow> pyval list \<Rightarrow> pyval" where
  "accelerator_labels hostname accelerator_type payload_values =
     PList (map (\<lambda>i. PStr (hostname @ ''-'' @ accelerator_type @ str_nat i))
                [0 ..< length payload_values])"

definition add_accelerator_labels ::
  "(string, string) fmap option \<Rightarrow> pyval list \<Rightarrow> pydict \<Rightarrow> pydict" where
  "add_accelerator_labels labels payload_values payload =
     (case labels of
        None \<Rightarrow> payload
      | Some l \<Rightarrow>
          if l = fmempty then payload
          else (case (fmlookup l ''hostname'', fmlookup l ''accelerator_type'') of
                  (Some hostname, Some accelerator_type) \<Rightarrow>
                    fmupd ''accelerator_labels''
                      (accelerator_labels hostname accelerator_type payload_values) payload
                | _ \<Rightarrow> payload))"

text \<open>\<open>if step is not None: payload["step_index"] = step\<close>.\<close>

definition add_step_index :: "int option \<Rightarrow> pydict \<Rightarrow> pydict" where
  "add_step_index step payload =
     (case step of None \<Rightarrow> payload | Some s \<Rightarrow> fmupd ''step_index'' (PInt s) payload)"

text \<open>\<open>if labels: payload.update(labels)\<close>.\<close>

definition update_labels :: "(string, string) fmap option \<Rightarrow> pydict \<Rightarrow> pydict" where
  "update_labels labels payload =
     (case labels of
        None \<Rightarrow> payload
      | Some l \<Rightarrow> if l = fmempty then payload else payload ++\<^sub>f fmmap PStr l)"

definition build_payload ::
  "pyval list \<Rightarrow> int option \<Rightarrow> (string, string) fmap option \<Rightarrow> pydict" where
  "build_payload payload_values step labels =
     update_labels labels
       (add_step_index step
          (add_accelerator_labels labels payload_values
             (fmupd ''values'' (PList payload_values) fmempty)))"

definition metric_resource :: "logging_client \<Rightarrow> string \<Rightarrow> string \<Rightarrow> string \<Rightarrow> resource" where
  "metric_resource self location metric_name run_id =
     \<lparr>r_type = ''generic_node'',
      r_labels = fmap_of_list
        [(''project_id'', project_id self),
         (''location'', location),
         (''namespace'', metric_name),
         (''node_id'', run_id)]\<rparr>"

text \<open>How one pass of the loop ends: an exception, the \<open>continue\<close> after the warning,
  or the call of \<open>batch.log_struct\<close>.\<close>

datatype outcome = Raised exn | Skipped log_record | Logged entry

definition write_metrics_body ::
  "logging_client \<Rightarrow> string \<Rightarrow> string \<Rightarrow> nat \<Rightarrow> metric \<Rightarrow> outcome" where
  "write_metrics_body self run_id location current_time metric =
     (case m_metric_name metric of
        None \<Rightarrow> Raised (KeyError ''metric_name'')
      | Some metric_name \<Rightarrow>
     (case m_value metric of
        None \<Rightarrow> Raised (KeyError ''value'')
      | Some v \<Rightarrow>
     (case payload_values_of v of
        None \<Rightarrow>
          Skipped (LogRecord WARNING
            ''Skipping metric %s due to unsupported value type: %s''
            [PStr metric_name, type_of v])
      | Some payload_values \<Rightarrow>
          Logged \<lparr>e_payload = build_payload payload_values (m_step metric) (m_labels metric),
                  e_severity = ''INFO'',
                  e_timestamp = current_time,
                  e_resource = metric_resource self location metric_name run_id\<rparr>)))"

subsection \<open>The loop and the call\<close>

text \<open>
  The loop inside the batch scope. It carries the entries of the open batch and the
  logger's records; an exception ends it, and the records written so far stay.
\<close>

fun write_metrics_loop ::
  "logging_client \<Rightarrow> string \<Rightarrow> string \<Rightarrow> nat \<Rightarrow> metric list \<Rightarrow>
   entry list \<times> log_record list \<Rightarrow> exn option \<times> entry list \<times> log_record list" where
  "write_metrics_loop self run_id location current_time [] (batch, lg) = (None, batch, lg)"
| "write_metrics_loop self run_id location current_time (metric # rest) (batch, lg) =
     (case write_metrics_body self run_id location current_time metric of
        Raised e \<Rightarrow> (Some e, batch, lg)
      | Skipped r \<Rightarrow>
          write_metrics_loop self run_id location current_time rest (batch, lg @ [r])
      | Logged en \<Rightarrow>
          write_metrics_loop self run_id location current_time rest (batch @ [en], lg))"

definition failed_message :: "exn \<Rightarrow> string" where
  "failed_message e = ''Failed to write metrics batch to Cloud Logging: '' @ exn_str e"

text \<open>
  The whole call. An exception in the loop leaves the scope abnormally, so the batch is
  dropped; otherwise the scope commits, and the \<open>info\<close> record follows a successful
  commit. Either exception is wrapped by the \<open>except\<close> clause.
\<close>

definition write_metrics ::
  "env \<Rightarrow> logging_client \<Rightarrow> metric list \<Rightarrow> string \<Rightarrow> string \<Rightarrow> world \<Rightarrow>
   (error + unit) \<times> world" where
  "write_metrics ev self metrics run_id location w =
     (case datetime_now ev w of (current_time, w1) \<Rightarrow>
      (case write_metrics_loop self run_id location current_time metrics ([], w_log w1) of
         (Some e, batch, lg) \<Rightarrow>
           (Inl (MLDiagnosticError (failed_message e) e), w1\<lparr>w_log := lg\<rparr>)
       | (None, batch, lg) \<Rightarrow>
           (case batch_commit ev batch (w1\<lparr>w_log := lg\<rparr>) of
              Inl e \<Rightarrow> (Inl (MLDiagnosticError (failed_message e) e), w1\<lparr>w_log := lg\<rparr>)
            | Inr w2 \<Rightarrow>
                (Inr (),
                 w2\<lparr>w_log := w_log w2 @
                   [LogRecord INFO ''Successfully written %d metrics in batch.''
                      [PInt (int (length metrics))]]\<rparr>))))"

section \<open>Vocabulary of the properties\<close>

text \<open>
  The name of a description after normalization: a member of the enumeration is replaced
  by its string value, anything else stays.
\<close>

fun unwrap_name :: "pyval option \<Rightarrow> pyval option" where
  "unwrap_name (Some (PEnum v)) = Some (PStr v)"
| "unwrap_name x = x"

text \<open>A metric dictionary that has both keys that the loop indexes.\<close>

definition has_keys :: "metric \<Rightarrow> bool" where
  "has_keys m \<longleftrightarrow> m_metric_name m \<noteq> None \<and> m_value m \<noteq> None"

text \<open>The first key that the loop body finds missing.\<close>

definition missing_key :: "metric \<Rightarrow> string" where
  "missing_key m = (if m_metric_name m = None then ''metric_name'' else ''value'')"

text \<open>
  A record that the loop body skips: both keys are there, and the value is neither an
  \<open>int\<close> or \<open>float\<close> nor a \<open>list\<close>.
\<close>

definition skipped :: "metric \<Rightarrow> bool" where
  "skipped m \<longleftrightarrow>
     has_keys m \<and> (case m_value m of None \<Rightarrow> False | Some v \<Rightarrow> payload_values_of v = None)"

text \<open>The entries and the warnings that one record contributes to the batch.\<close>

definition logged ::
  "logging_client \<Rightarrow> string \<Rightarrow> string \<Rightarrow> nat \<Rightarrow> metric \<Rightarrow> entry list" where
  "logged self run_id location current_time m =
     (case write_metrics_body self run_id location current_time m of
        Logged en \<Rightarrow> [en] | _ \<Rightarrow> [])"

definition warned ::
  "logging_client \<Rightarrow> string \<Rightarrow> string \<Rightarrow> nat \<Rightarrow> metric \<Rightarrow> log_record list" where
  "warned self run_id location current_time m =
     (case write_metrics_body self run_id location current_time m of
        Skipped r \<Rightarrow> [r] | _ \<Rightarrow> [])"

text \<open>The entries of the whole batch, when no record raises.\<close>

definition batch_entries ::
  "logging_client \<Rightarrow> string \<Rightarrow> string \<Rightarrow> nat \<Rightarrow> metric list \<Rightarrow> entry list" where
  "batch_entries self run_id location current_time ms =
     concat (map (logged self run_id location current_time) ms)"

text \<open>
  The exception that ends the building of a batch, read off the input alone: the
  \<open>KeyError\<close> of the first record that lacks an indexed key, if there is such a record.
\<close>

definition construction_failure :: "metric list \<Rightarrow> exn option" where
  "construction_failure ms =
     (case dropWhile has_keys ms of
        [] \<Rightarrow> None
      | m # _ \<Rightarrow> Some (KeyError (missing_key m)))"

text \<open>
  The underlying failure of a call, if any: the construction failure, or else the
  exception with which the sink answers the flush of the batch's entries.
\<close>

definition underlying_failure ::
  "env \<Rightarrow> logging_client \<Rightarrow> metric list \<Rightarrow> string \<Rightarrow> string \<Rightarrow> world \<Rightarrow> exn option" where
  "underlying_failure ev self ms run_id location w =
     (case construction_failure ms of
        Some e \<Rightarrow> Some e
      | None \<Rightarrow> flush ev (batch_entries self run_id location (clock ev (w_ticks w)) ms))"

text \<open>The level of a logger record, and the count that an \<open>info\<close> record reports.\<close>

fun level_of :: "log_record \<Rightarrow> level" where
  "level_of (LogRecord l _ _) = l"

fun reported_counts :: "log_record list \<Rightarrow> pyval list" where
  "reported_counts [] = []"
| "reported_counts (LogRecord INFO _ args # rs) = args @ reported_counts rs"
| "reported_counts (LogRecord WARNING _ _ # rs) = reported_counts rs"

text \<open>
  The value shapes that the specification calls valid: a numeric scalar, or a sequence of
  numeric scalars.
\<close>

fun numeric_scalar :: "pyval \<Rightarrow> bool" where
  "numeric_scalar (PInt _) = True"
| "numeric_scalar (PFloat _) = True"
| "numeric_scalar (PBool _) = True"
| "numeric_scalar _ = False"

fun valid_shape :: "pyval \<Rightarrow> bool" where
  "valid_shape (PList xs) = list_all numeric_scalar xs"
| "valid_shape (PTuple xs) = list_all numeric_scalar xs"
| "valid_shape v = numeric_scalar v"

subsection \<open>Concrete inputs\<close>

definition example_store :: store where
  "example_store = (\<lambda>_. fmempty)
     (0 := fmap_of_list [(''metric_name'', PStr ''loss''), (''value'', PInt 42)],
      1 := fmap_of_list
             [(''metric_name'', PEnum ''tf_flops''), (''value'', PInt 7), (''step'', PInt 5)])"

definition example_client :: logging_client where
  "example_client = \<lparr>project_id = ''proj'', log_name = ''ml_diagnostics_metric''\<rparr>"

definition example_world :: world where
  "example_world = \<lparr>w_ticks = 0, w_log = [], w_persisted = []\<rparr>"

text \<open>A clock that shows 1000 at every reading, with a sink that accepts every flush.\<close>

definition accepting_env :: env where
  "accepting_env = \<lparr>clock = (\<lambda>_. 1000), flush = (\<lambda>_. None)\<rparr>"

text \<open>The same clock, with a sink that fails every flush.\<close>

definition failing_env :: env where
  "failing_env = \<lparr>clock = (\<lambda>_. 1000), flush = (\<lambda>_. Some (SinkError ''unavailable''))\<rparr>"

definition good_metric :: metric where
  "good_metric = \<lparr>m_metric_name = Some ''loss'', m_value = Some (PInt 3),
                   m_step = Some 7, m_labels = None\<rparr>"

definition text_metric :: metric where
  "text_metric = \<lparr>m_metric_name = Some ''note'', m_value = Some (PStr ''not a number''),
                   m_step = None, m_labels = None\<rparr>"

definition text_list_metric :: metric where
  "text_list_metric = \<lparr>m_metric_name = Some ''notes'',
                        m_value = Some (PList [PStr ''not a number'']),
                        m_step = None, m_labels = None\<rparr>"

definition nameless_metric :: metric where
  "nameless_metric = \<lparr>m_metric_name = None, m_value = Some (PInt 3),
                       m_step = None, m_labels = None\<rparr>"

definition host_labels :: "(string, string) fmap" where
  "host_labels = fmap_of_list [(''hostname'', ''h''), (''accelerator_type'', ''t'')]"

definition accelerator_metric :: metric where
  "accelerator_metric = \<lparr>m_metric_name = Some ''util'',
                          m_value = Some (PList [PInt 10, PInt 20, PInt 30]),
                          m_step = None, m_labels = Some host_labels\<rparr>"

text \<open>Labels that use the names of derived payload keys as label keys.\<close>

definition clashing_labels :: "(string, string) fmap" where
  "clashing_labels = fmap_of_list
     [(''hostname'', ''h''), (''accelerator_type'', ''t''), (''accelerator_labels'', ''x'')]"

definition clashing_metric :: metric where
  "clashing_metric = \<lparr>m_metric_name = Some ''util'',
                       m_value = Some (PList [PInt 10, PInt 20, PInt 30]),
                       m_step = None, m_labels = Some clashing_labels\<rparr>"

definition values_label_metric :: metric where
  "values_label_metric = \<lparr>m_metric_name = Some ''loss'', m_value = Some (PInt 3),
                           m_step = None,
                           m_labels = Some (fmap_of_list [(''values'', ''x'')])\<rparr>"

definition zone_metric :: metric where
  "zone_metric = \<lparr>m_metric_name = Some ''loss'', m_value = Some (PInt 3),
                   m_step = Some 7,
                   m_labels = Some (fmap_of_list [(''zone'', ''z'')])\<rparr>"

section \<open>Properties of record_metrics\<close>

subsection \<open>What one pass of the loop does to a dictionary\<close>

lemma body_other_object:
  "b \<noteq> a \<Longrightarrow> record_metrics_body step h a b = h b"
  by (simp add: record_metrics_body_def setitem_def Let_def split: option.splits pyval.splits)

lemma body_other_key:
  "k \<noteq> ''metric_name'' \<Longrightarrow> k \<noteq> ''step'' \<Longrightarrow>
   fmlookup (record_metrics_body step h a b) k = fmlookup (h b) k"
  by (simp add: record_metrics_body_def setitem_def Let_def split: option.splits pyval.splits)

lemma body_step:
  "fmlookup (record_metrics_body step h a b) ''step'' =
     (if b = a \<and> fmlookup (h b) ''step'' = None then map_option PInt step
      else fmlookup (h b) ''step'')"
  by (auto simp: record_metrics_body_def setitem_def Let_def fmlookup_dom_iff
           split: option.splits pyval.splits)

lemma unwrap_name_idem: "unwrap_name (unwrap_name x) = unwrap_name x"
  by (cases x rule: unwrap_name.cases) simp_all

lemma body_name:
  "fmlookup (record_metrics_body step h a b) ''metric_name'' =
     (if b = a then unwrap_name (fmlookup (h b) ''metric_name'')
      else fmlookup (h b) ''metric_name'')"
proof (cases "fmlookup (h a) ''metric_name''")
  case None
  then show ?thesis
    by (simp add: record_metrics_body_def setitem_def dict_get_def Let_def
             split: option.splits)
next
  case (Some v)
  then show ?thesis
    by (cases v)
       (simp_all add: record_metrics_body_def setitem_def dict_get_def Let_def
             split: option.splits)
qed

subsection \<open>What the whole loop does\<close>

lemma loop_handed_over:
  "snd (record_metrics_loop step ms (h, p)) = p @ ms"
  by (induction ms arbitrary: h p) simp_all

lemma loop_other_object:
  "b \<notin> set ms \<Longrightarrow> fst (record_metrics_loop step ms (h, p)) b = h b"
  by (induction ms arbitrary: h p) (simp_all add: body_other_object)

lemma loop_other_key:
  "k \<noteq> ''metric_name'' \<Longrightarrow> k \<noteq> ''step'' \<Longrightarrow>
   fmlookup (fst (record_metrics_loop step ms (h, p)) b) k = fmlookup (h b) k"
  by (induction ms arbitrary: h p) (simp_all add: body_other_key)

lemma loop_step:
  "fmlookup (fst (record_metrics_loop step ms (h, p)) b) ''step'' =
     (if b \<in> set ms \<and> fmlookup (h b) ''step'' = None then map_option PInt step
      else fmlookup (h b) ''step'')"
proof (induction ms arbitrary: h p)
  case Nil
  show ?case by simp
next
  case (Cons a ms)
  have "fmlookup (fst (record_metrics_loop step (a # ms) (h, p)) b) ''step'' =
          (if b \<in> set ms \<and> fmlookup (record_metrics_body step h a b) ''step'' = None
           then map_option PInt step
           else fmlookup (record_metrics_body step h a b) ''step'')"
    by (simp add: Cons.IH)
  also have "\<dots> = (if b \<in> set (a # ms) \<and> fmlookup (h b) ''step'' = None
                     then map_option PInt step else fmlookup (h b) ''step'')"
    by (cases step) (auto simp: body_step)
  finally show ?case .
qed

lemma loop_name:
  "fmlookup (fst (record_metrics_loop step ms (h, p)) b) ''metric_name'' =
     (if b \<in> set ms then unwrap_name (fmlookup (h b) ''metric_name'')
      else fmlookup (h b) ''metric_name'')"
proof (induction ms arbitrary: h p)
  case Nil
  show ?case by simp
next
  case (Cons a ms)
  show ?case
    by (auto simp: Cons.IH body_name unwrap_name_idem)
qed

lemma store_after_loop:
  "store_after (record_metrics h ms f step) = fst (record_metrics_loop step ms (h, []))"
  by (simp add: record_metrics_def store_after_def split: prod.splits)

lemma handed_over_loop:
  "handed_over (record_metrics h ms f step) = ms"
  using loop_handed_over [of step ms h "[]"]
  by (cases "record_metrics_loop step ms (h, [])")
     (simp add: record_metrics_def handed_over_def)

section \<open>Properties of the loop of write_metrics\<close>

lemma body_raises:
  "\<not> has_keys m \<Longrightarrow>
   write_metrics_body self r l t m = Raised (KeyError (missing_key m))"
  by (auto simp: write_metrics_body_def has_keys_def missing_key_def split: option.splits)

lemma body_has_keys:
  "has_keys m \<Longrightarrow>
   write_metrics_body self r l t m \<noteq> Raised e"
  by (auto simp: write_metrics_body_def has_keys_def split: option.splits)

lemma body_cases:
  assumes "has_keys m"
  shows "(skipped m \<and> (\<exists>rec. write_metrics_body self r l t m = Skipped rec)) \<or>
         (\<not> skipped m \<and> (\<exists>en. write_metrics_body self r l t m = Logged en))"
  using assms
  by (auto simp: write_metrics_body_def has_keys_def skipped_def split: option.splits)

lemma loop_all_keys:
  "\<forall>m\<in>set ms. has_keys m \<Longrightarrow>
   write_metrics_loop self r l t ms (batch, lg) =
     (None, batch @ batch_entries self r l t ms, lg @ concat (map (warned self r l t) ms))"
proof (induction ms arbitrary: batch lg)
  case Nil
  show ?case by (simp add: batch_entries_def)
next
  case (Cons m ms)
  then have k: "has_keys m" and rest: "\<forall>m\<in>set ms. has_keys m" by simp_all
  show ?case
  proof (cases "write_metrics_body self r l t m")
    case (Raised e)
    with body_has_keys [OF k] show ?thesis by blast
  next
    case (Skipped rec)
    then show ?thesis
      by (simp add: Cons.IH [OF rest] batch_entries_def logged_def warned_def)
  next
    case (Logged en)
    then show ?thesis
      by (simp add: Cons.IH [OF rest] batch_entries_def logged_def warned_def)
  qed
qed

lemma loop_missing_key:
  "\<exists>m\<in>set ms. \<not> has_keys m \<Longrightarrow>
   \<exists>m\<in>set ms. \<not> has_keys m \<and> 
     fst (write_metrics_loop self r l t ms (batch, lg)) = Some (KeyError (missing_key m))"
proof (induction ms arbitrary: batch lg)
  case Nil
  then show ?case by simp
next
  case (Cons m ms)
  show ?case
  proof (cases "has_keys m")
    case False
    then show ?thesis by (simp add: body_raises)
  next
    case True
    with Cons.prems have rest: "\<exists>m\<in>set ms. \<not> has_keys m" by auto
    from body_cases [OF True, of self r l t] show ?thesis
      using Cons.IH [OF rest] by auto
  qed
qed

lemma loop_extends:
  "write_metrics_loop self r l t ms (batch, lg) = (res, batch', lg') \<Longrightarrow>
   \<exists>es ws. batch' = batch @ es \<and> lg' = lg @ ws \<and>
     (\<forall>e\<in>set es. e_timestamp e = t \<and> e_severity e = ''INFO'') \<and>
     (\<forall>rec\<in>set ws. level_of rec = WARNING)"
proof (induction ms arbitrary: batch lg)
  case Nil
  then show ?case by simp
next
  case (Cons m ms)
  show ?case
  proof (cases "write_metrics_body self r l t m")
    case (Raised e)
    with Cons.prems show ?thesis by simp
  next
    case (Skipped rec)
    then have w: "level_of rec = WARNING"
      by (auto simp: write_metrics_body_def split: option.splits)
    from Skipped Cons.prems
    have "write_metrics_loop self r l t ms (batch, lg @ [rec]) = (res, batch', lg')" by simp
    from Cons.IH [OF this] w show ?thesis by auto
  next
    case (Logged en)
    then have w: "e_timestamp en = t \<and> e_severity en = ''INFO''"
      by (auto simp: write_metrics_body_def split: option.splits)
    from Logged Cons.prems
    have "write_metrics_loop self r l t ms (batch @ [en], lg) = (res, batch', lg')" by simp
    from Cons.IH [OF this] w show ?thesis by auto
  qed
qed


lemma digit_val_digit_char: "d < 10 \<Longrightarrow> digit_val (digit_char d) = d"
proof -
  assume "d < 10"
  then have "d \<in> {0, 1, 2, 3, 4, 5, 6, 7, 8, 9}" by auto
  then show ?thesis
    by (auto simp: digit_char_def digit_val_def)
qed

lemma read_nat_snoc: "read_nat (s @ [c]) = 10 * read_nat s + digit_val c"
  by (simp add: read_nat_def)

lemma read_nat_str_nat: "read_nat (str_nat n) = n"
proof (induction n rule: str_nat.induct)
  case (1 n)
  show ?case
  proof (cases "n < 10")
    case True
    then show ?thesis
      by (subst str_nat.simps) (simp add: read_nat_def digit_val_digit_char)
  next
    case False
    then have "read_nat (str_nat (n div 10)) = n div 10" using 1 by simp
    with False show ?thesis
      by (subst str_nat.simps) (simp add: read_nat_snoc digit_val_digit_char)
  qed
qed

lemma write_metrics_all_keys:
  assumes "\<forall>m\<in>set ms. has_keys m"
  shows "write_metrics ev self ms r l w =
     (case flush ev (batch_entries self r l (clock ev (w_ticks w)) ms) of
        Some e \<Rightarrow>
          (Inl (MLDiagnosticError (failed_message e) e),
           w\<lparr>w_ticks := w_ticks w + 1,
             w_log := w_log w @ concat (map (warned self r l (clock ev (w_ticks w))) ms)\<rparr>)
      | None \<Rightarrow>
          (Inr (),
           w\<lparr>w_ticks := w_ticks w + 1,
             w_log := w_log w @ concat (map (warned self r l (clock ev (w_ticks w))) ms) @
               [LogRecord INFO ''Successfully written %d metrics in batch.''
                  [PInt (int (length ms))]],
             w_persisted := w_persisted w @ batch_entries self r l (clock ev (w_ticks w)) ms\<rparr>))"
  by (simp add: write_metrics_def datetime_now_def batch_commit_def
        loop_all_keys [OF assms] split: option.splits)

lemma write_metrics_missing_key:
  assumes "\<exists>m\<in>set ms. \<not> has_keys m"
  shows "\<exists>m\<in>set ms. \<not> has_keys m \<and>
     fst (write_metrics ev self ms r l w) =
       Inl (MLDiagnosticError (failed_message (KeyError (missing_key m)))
              (KeyError (missing_key m))) \<and>
     w_persisted (snd (write_metrics ev self ms r l w)) = w_persisted w \<and>
     w_ticks (snd (write_metrics ev self ms r l w)) = w_ticks w + 1 \<and>
     (\<exists>ws. w_log (snd (write_metrics ev self ms r l w)) = w_log w @ ws \<and>
           (\<forall>rec\<in>set ws. level_of rec = WARNING))"
proof -
  let ?t = "clock ev (w_ticks w)"
  obtain res batch lg where
    loop: "write_metrics_loop self r l ?t ms ([], w_log w) = (res, batch, lg)"
    by (cases "write_metrics_loop self r l ?t ms ([], w_log w)") auto
  from loop_missing_key [OF assms, of self r l ?t "[]" "w_log w"] loop
  obtain m where m: "m \<in> set ms" "\<not> has_keys m" "res = Some (KeyError (missing_key m))"
    by auto
  from loop_extends [OF loop] obtain ws where
    ws: "lg = w_log w @ ws" "\<forall>rec\<in>set ws. level_of rec = WARNING" by auto
  from loop m(3) ws
  have "fst (write_metrics ev self ms r l w) =
       Inl (MLDiagnosticError (failed_message (KeyError (missing_key m)))
              (KeyError (missing_key m))) \<and>
     w_persisted (snd (write_metrics ev self ms r l w)) = w_persisted w \<and>
     w_ticks (snd (write_metrics ev self ms r l w)) = w_ticks w + 1 \<and>
     (\<exists>ws. w_log (snd (write_metrics ev self ms r l w)) = w_log w @ ws \<and>
           (\<forall>rec\<in>set ws. level_of rec = WARNING))"
    by (simp add: write_metrics_def datetime_now_def)
  with m show ?thesis by blast
qed

lemma warned_level: "rec \<in> set (warned self r l t m) \<Longrightarrow> level_of rec = WARNING"
  by (auto simp: warned_def write_metrics_body_def split: option.splits outcome.splits)

lemma logged_envelope:
  "e \<in> set (logged self r l t m) \<Longrightarrow> e_timestamp e = t \<and> e_severity e = ''INFO''"
  by (auto simp: logged_def write_metrics_body_def split: option.splits outcome.splits)

lemma logged_skipped:
  "has_keys m \<Longrightarrow>
   length (logged self r l t m) = (if skipped m then 0 else 1) \<and>
   length (warned self r l t m) = (if skipped m then 1 else 0)"
  using body_cases [of m self r l t]
  by (auto simp: logged_def warned_def)

lemma batch_entries_count:
  "\<forall>m\<in>set ms. has_keys m \<Longrightarrow>
   length (batch_entries self r l t ms) = length (filter (\<lambda>m. \<not> skipped m) ms)"
  by (induction ms) (simp_all add: batch_entries_def logged_skipped)

subsection \<open>The loop up to the first failure\<close>

lemma loop_until_failure:
  "write_metrics_loop self r l t ms (batch, lg) =
     (construction_failure ms,
      batch @ batch_entries self r l t (takeWhile has_keys ms),
      lg @ concat (map (warned self r l t) (takeWhile has_keys ms)))"
proof (induction ms arbitrary: batch lg)
  case Nil
  show ?case by (simp add: construction_failure_def batch_entries_def)
next
  case (Cons m ms)
  show ?case
  proof (cases "has_keys m")
    case False
    then show ?thesis
      by (simp add: body_raises construction_failure_def batch_entries_def)
  next
    case True
    then have cf: "construction_failure (m # ms) = construction_failure ms"
      by (simp add: construction_failure_def)
    show ?thesis
    proof (cases "write_metrics_body self r l t m")
      case (Raised e)
      with body_has_keys [OF True] show ?thesis by blast
    next
      case (Skipped rec)
      with True cf show ?thesis
        by (simp add: Cons.IH batch_entries_def logged_def warned_def)
    next
      case (Logged en)
      with True cf show ?thesis
        by (simp add: Cons.IH batch_entries_def logged_def warned_def)
    qed
  qed
qed

lemma construction_failure_None:
  "construction_failure ms = None \<longleftrightarrow> (\<forall>m\<in>set ms. has_keys m)"
proof
  assume "construction_failure ms = None"
  then have "dropWhile has_keys ms = []"
    by (simp add: construction_failure_def split: list.splits)
  then show "\<forall>m\<in>set ms. has_keys m" by (simp add: dropWhile_eq_Nil_conv)
next
  assume "\<forall>m\<in>set ms. has_keys m"
  then have d: "dropWhile has_keys ms = []" by (simp add: dropWhile_eq_Nil_conv)
  show "construction_failure ms = None"
    unfolding construction_failure_def d by simp
qed

text \<open>The converse: without an underlying failure the call returns normally.\<close>

lemma write_metrics_no_failure:
  assumes "underlying_failure ev self metrics run_id location w = None"
  shows "fst (write_metrics ev self metrics run_id location w) = Inr ()"
proof -
  from assms have cf: "construction_failure metrics = None"
    by (simp add: underlying_failure_def split: option.splits)
  then have keys: "\<forall>m\<in>set metrics. has_keys m" by (simp add: construction_failure_None)
  from assms cf
  have "flush ev (batch_entries self run_id location (clock ev (w_ticks w)) metrics) = None"
    by (simp add: underlying_failure_def)
  then show ?thesis by (simp add: write_metrics_all_keys [OF keys])
qed

subsection \<open>The payload\<close>

lemma build_payload_label:
  "fmlookup lb k = Some x \<Longrightarrow>
   fmlookup (build_payload vs step (Some lb)) k = Some (PStr x)"
  by (auto simp: build_payload_def update_labels_def)

lemma build_payload_values:
  "''values'' |\<notin>| fmdom lb \<Longrightarrow>
   fmlookup (build_payload vs step (Some lb)) ''values'' = Some (PList vs)"
  by (auto simp: build_payload_def update_labels_def add_step_index_def
      add_accelerator_labels_def fmlookup_dom_iff split: option.splits)

lemma build_payload_step_index:
  "''step_index'' |\<notin>| fmdom lb \<Longrightarrow>
   fmlookup (build_payload vs step (Some lb)) ''step_index'' = map_option PInt step"
  by (auto simp: build_payload_def update_labels_def add_step_index_def
      add_accelerator_labels_def fmlookup_dom_iff split: option.splits)

lemma build_payload_accelerator_labels:
  "''accelerator_labels'' |\<notin>| fmdom lb \<Longrightarrow>
   fmlookup (build_payload vs step (Some lb)) ''accelerator_labels'' =
     (case (fmlookup lb ''hostname'', fmlookup lb ''accelerator_type'') of
        (Some h, Some t) \<Rightarrow> Some (accelerator_labels h t vs)
      | _ \<Rightarrow> None)"
  by (auto simp: build_payload_def update_labels_def add_step_index_def
      add_accelerator_labels_def fmlookup_dom_iff split: option.splits)

lemma body_logged:
  "m_metric_name m = Some name \<Longrightarrow> m_value m = Some v \<Longrightarrow> payload_values_of v = Some vs \<Longrightarrow>
   write_metrics_body self r l t m =
     Logged \<lparr>e_payload = build_payload vs (m_step m) (m_labels m),
             e_severity = ''INFO'', e_timestamp = t,
             e_resource = metric_resource self l name r\<rparr>"
  by (simp add: write_metrics_body_def)

section \<open>Normalization: the claims about record_metrics\<close>

text \<open>
  C3. A description that carries its own \<open>step\<close> keeps it: whatever batch-level dflt
  is passed to \<open>record_metrics\<close> (a number or none), the step of the normalized record
  is the record's own.
\<close>

theorem record_metrics_step_precedence:
  assumes "a \<in> set metrics_data" and "fmlookup (h a) ''step'' = Some s"
  shows "fmlookup (store_after (record_metrics h metrics_data record_on_all_hosts d) a) ''step''
         = Some s"
  using assms by (simp add: store_after_loop loop_step)

theorem record_metrics_step_precedence_witness:
  "(1::nat) \<in> set [0, 1] \<and> fmlookup (example_store 1) ''step'' = Some (PInt 5) \<and>
   fmlookup (store_after (record_metrics example_store [0, 1] False (Some 1)) 1) ''step''
     = Some (PInt 5)"
  using record_metrics_step_precedence [of 1 "[0, 1]" example_store "PInt 5" False "Some 1"]
  by (simp add: example_store_def)

text \<open>
  C4. A description without the key \<open>step\<close>: with a batch-level dflt \<open>d\<close> the
  normalized record has step \<open>d\<close>, and with no dflt the key stays absent.
\<close>

theorem record_metrics_default_backfill:
  assumes "a \<in> set metrics_data" and "fmlookup (h a) ''step'' = None"
  shows "fmlookup (store_after (record_metrics h metrics_data record_on_all_hosts dflt) a)
           ''step''
         = (case dflt of None \<Rightarrow> None | Some d \<Rightarrow> Some (PInt d))"
  using assms by (simp add: store_after_loop loop_step split: option.splits)

theorem record_metrics_default_backfill_witness:
  "(0::nat) \<in> set [0, 1] \<and> fmlookup (example_store 0) ''step'' = None \<and>
   fmlookup (store_after (record_metrics example_store [0, 1] False (Some 1)) 0) ''step''
     = Some (PInt 1) \<and>
   fmlookup (store_after (record_metrics example_store [0, 1] False None) 0) ''step'' = None"
  using record_metrics_default_backfill [of 0 "[0, 1]" example_store False "Some 1"]
        record_metrics_default_backfill [of 0 "[0, 1]" example_store False None]
  by (simp add: example_store_def)

text \<open>
  C2, as stated, fails: \<open>record_metrics\<close> assigns to the caller's own dictionaries. In the
  example the first dictionary has no step before the call and step 1 after it, and the
  second has an enumeration member as its name before and a string after.
\<close>

theorem record_metrics_mutates_input:
  "fmlookup (example_store 0) ''step'' = None \<and>
   fmlookup (store_after (record_metrics example_store [0, 1] False (Some 1)) 0) ''step''
     = Some (PInt 1) \<and>
   fmlookup (example_store 1) ''metric_name'' = Some (PEnum ''tf_flops'') \<and>
   fmlookup (store_after (record_metrics example_store [0, 1] False (Some 1)) 1)
     ''metric_name'' = Some (PStr ''tf_flops'') \<and>
   store_after (record_metrics example_store [0, 1] False (Some 1)) \<noteq> example_store"
proof -
  let ?h = "store_after (record_metrics example_store [0, 1] False (Some 1))"
  have before: "fmlookup (example_store 0) ''step'' = None"
    by (simp add: example_store_def)
  have after: "fmlookup (?h 0) ''step'' = Some (PInt 1)"
    by (simp only: store_after_loop loop_step) (simp add: example_store_def)
  have name_before: "fmlookup (example_store 1) ''metric_name'' = Some (PEnum ''tf_flops'')"
    by (simp add: example_store_def)
  have name_after: "fmlookup (?h 1) ''metric_name'' = Some (PStr ''tf_flops'')"
    by (simp only: store_after_loop loop_name) (simp add: example_store_def)
  have "?h \<noteq> example_store"
  proof
    assume "?h = example_store"
    then have "fmlookup (?h 0) ''step'' = fmlookup (example_store 0) ''step''" by simp
    with before after show False by simp
  qed
  with before after name_before name_after show ?thesis by blast
qed

text \<open>
  C2, amended. \<open>record_metrics\<close> hands over the dictionaries of \<open>metrics_data\<close>
  themselves, in the same order; it leaves every dictionary outside the list as it was, and
  in every dictionary every key other than \<open>metric_name\<close> and \<open>step\<close>. In a dictionary
  of the list it replaces a name that is an enumeration member by the member's string
  value, and it stores the dflt step under \<open>step\<close> when that key is missing and a
  dflt was given.
\<close>

theorem record_metrics_frame:
  assumes "k \<noteq> ''metric_name''" and "k \<noteq> ''step''" and "a \<in> set metrics_data"
    and "b \<notin> set metrics_data"
  shows "handed_over (record_metrics h metrics_data record_on_all_hosts dflt) = metrics_data \<and>
         store_after (record_metrics h metrics_data record_on_all_hosts dflt) b = h b \<and>
         fmlookup (store_after (record_metrics h metrics_data record_on_all_hosts dflt) a) k
           = fmlookup (h a) k \<and>
         fmlookup (store_after (record_metrics h metrics_data record_on_all_hosts dflt) a)
           ''metric_name'' = unwrap_name (fmlookup (h a) ''metric_name'') \<and>
         fmlookup (store_after (record_metrics h metrics_data record_on_all_hosts dflt) a)
           ''step'' = (if fmlookup (h a) ''step'' = None then map_option PInt dflt
                       else fmlookup (h a) ''step'')"
  using assms
  by (simp add: handed_over_loop store_after_loop loop_other_object loop_other_key
        loop_name loop_step)

theorem record_metrics_frame_witness:
  "''value'' \<noteq> ''metric_name'' \<and> ''value'' \<noteq> ''step'' \<and> (1::nat) \<in> set [0, 1] \<and>
   (2::nat) \<notin> set [0, 1] \<and>
   handed_over (record_metrics example_store [0, 1] False (Some 1)) = [0, 1] \<and>
   store_after (record_metrics example_store [0, 1] False (Some 1)) 2 = fmempty \<and>
   fmlookup (store_after (record_metrics example_store [0, 1] False (Some 1)) 1) ''value''
     = Some (PInt 7) \<and>
   fmlookup (store_after (record_metrics example_store [0, 1] False (Some 1)) 1)
     ''metric_name'' = Some (PStr ''tf_flops'') \<and>
   fmlookup (store_after (record_metrics example_store [0, 1] False (Some 1)) 1) ''step''
     = Some (PInt 5)"
  using record_metrics_frame [of "''value''" 1 "[0, 1]" 2 example_store False "Some 1"]
  by (simp add: example_store_def)

section \<open>Building and writing: the claims about write_metrics\<close>

text \<open>
  C1, as stated, fails: a value that is a list passes whatever its elements are. The list
  \<open>["not a number"]\<close> is neither a numeric scalar nor a sequence of numeric scalars, yet
  its record is not skipped: the batch of this one record yields one entry, not none.
\<close>

theorem write_metrics_keeps_text_list:
  "m_value text_list_metric = Some (PList [PStr ''not a number'']) \<and>
   \<not> valid_shape (PList [PStr ''not a number'']) \<and>
   fst (write_metrics accepting_env example_client [text_list_metric] ''run'' ''us''
          example_world) = Inr () \<and>
   length (w_persisted (snd (write_metrics accepting_env example_client [text_list_metric]
          ''run'' ''us'' example_world))) = 1"
  by (simp add: text_list_metric_def write_metrics_def datetime_now_def batch_commit_def
        write_metrics_body_def accepting_env_def example_world_def)

text \<open>
  C1, amended. In a batch whose records all have the keys \<open>metric_name\<close> and \<open>value\<close>
  and whose flush the sink accepts, a record whose value is neither an \<open>int\<close> or
  \<open>float\<close> nor a \<open>list\<close> (the elements of a list are not looked at) is skipped with one
  warning and adds no entry, every other record adds exactly one entry, and no error is
  raised: of \<open>N\<close> records with \<open>k\<close> skipped ones, \<open>N - k\<close> entries are written.
\<close>

theorem write_metrics_skips_unsupported:
  assumes "\<forall>m\<in>set metrics. has_keys m"
    and "flush ev (batch_entries self run_id location (clock ev (w_ticks w)) metrics) = None"
    and "m \<in> set metrics"
  shows "fst (write_metrics ev self metrics run_id location w) = Inr () \<and>
         w_persisted (snd (write_metrics ev self metrics run_id location w)) =
           w_persisted w @ batch_entries self run_id location (clock ev (w_ticks w)) metrics \<and>
         length (batch_entries self run_id location (clock ev (w_ticks w)) metrics) =
           length metrics - length (filter skipped metrics) \<and>
         length (logged self run_id location (clock ev (w_ticks w)) m) =
           (if skipped m then 0 else 1) \<and>
         length (warned self run_id location (clock ev (w_ticks w)) m) =
           (if skipped m then 1 else 0)"
proof -
  let ?t = "clock ev (w_ticks w)"
  have keys: "has_keys m" using assms(1,3) by blast
  have "length metrics = length (filter skipped metrics) +
          length (filter (\<lambda>m. \<not> skipped m) metrics)"
    by (rule sum_length_filter_compl [symmetric])
  then have count: "length (batch_entries self run_id location ?t metrics) =
      length metrics - length (filter skipped metrics)"
    by (simp add: batch_entries_count [OF assms(1)])
  show ?thesis
    using assms(2) count logged_skipped [OF keys, of self run_id location ?t]
    by (simp add: write_metrics_all_keys [OF assms(1)])
qed

theorem write_metrics_skips_unsupported_witness:
  "list_all has_keys [good_metric, text_metric, text_list_metric] \<and>
   text_metric \<in> set [good_metric, text_metric, text_list_metric] \<and>
   skipped text_metric \<and>
   fst (write_metrics accepting_env example_client [good_metric, text_metric, text_list_metric]
          ''run'' ''us'' example_world) = Inr () \<and>
   length (w_persisted (snd (write_metrics accepting_env example_client
          [good_metric, text_metric, text_list_metric] ''run'' ''us'' example_world))) = 2 \<and>
   logged example_client ''run'' ''us'' 1000 text_metric = []"
proof -
  let ?ms = "[good_metric, text_metric, text_list_metric]"
  have keys: "\<forall>m\<in>set ?ms. has_keys m"
    by (simp add: has_keys_def good_metric_def text_metric_def text_list_metric_def)
  have fl: "flush accepting_env (batch_entries example_client ''run'' ''us''
      (clock accepting_env (w_ticks example_world)) ?ms) = None"
    by (simp add: accepting_env_def)
  have mem: "text_metric \<in> set ?ms" by simp
  have sk: "skipped text_metric" "\<not> skipped good_metric" "\<not> skipped text_list_metric"
    by (simp_all add: skipped_def has_keys_def good_metric_def text_metric_def
          text_list_metric_def)
  have clk: "clock accepting_env (w_ticks example_world) = 1000"
    by (simp add: accepting_env_def)
  from write_metrics_skips_unsupported [OF keys fl mem] keys mem sk clk
  show ?thesis by (simp add: example_world_def list_all_iff)
qed

text \<open>
  C5, as stated, fails: the labels are merged into the payload after the derivation, so a
  label named \<open>accelerator_labels\<close> replaces the derived list. Here the labels have both
  \<open>hostname\<close> and \<open>accelerator_type\<close> and the value has three samples, yet the payload's
  \<open>accelerator_labels\<close> is the label's string.
\<close>

theorem accelerator_labels_overwritten:
  "m_labels clashing_metric = Some clashing_labels \<and>
   fmlookup clashing_labels ''hostname'' = Some ''h'' \<and>
   fmlookup clashing_labels ''accelerator_type'' = Some ''t'' \<and>
   m_value clashing_metric = Some (PList [PInt 10, PInt 20, PInt 30]) \<and>
   map (\<lambda>en. fmlookup (e_payload en) ''accelerator_labels'')
       (logged example_client ''run'' ''us'' 1000 clashing_metric) = [Some (PStr ''x'')] \<and>
   PStr ''x'' \<noteq> PList [PStr ''h-t0'', PStr ''h-t1'', PStr ''h-t2'']"
  by (simp add: clashing_metric_def clashing_labels_def logged_def write_metrics_body_def
        build_payload_def update_labels_def add_step_index_def add_accelerator_labels_def)

text \<open>
  C5, amended. For a record whose labels have the keys \<open>hostname\<close> (value \<open>h\<close>) and
  \<open>accelerator_type\<close> (value \<open>t\<close>) and no key \<open>accelerator_labels\<close>, and whose
  normalized values list has length \<open>n\<close>, the payload's \<open>accelerator_labels\<close> is the
  list of the strings \<open>h-t0\<close>, ..., \<open>h-t(n-1)\<close>: \<open>h\<close>, a dash, \<open>t\<close>, and the decimal
  position of the sample in the record's values.
\<close>

theorem accelerator_labels_derived:
  assumes "m_metric_name m = Some name" and "m_value m = Some v"
    and "payload_values_of v = Some vs"
    and "m_labels m = Some lb"
    and "fmlookup lb ''hostname'' = Some h"
    and "fmlookup lb ''accelerator_type'' = Some t"
    and "fmlookup lb ''accelerator_labels'' = None"
  shows "\<exists>en. write_metrics_body self run_id location current_time m = Logged en \<and>
           fmlookup (e_payload en) ''accelerator_labels'' =
             Some (PList (map (\<lambda>i. PStr (h @ ''-'' @ t @ str_nat i)) [0 ..< length vs]))"
proof -
  from assms(7) have "''accelerator_labels'' |\<notin>| fmdom lb"
    by (simp add: fmdom_notI)
  from build_payload_accelerator_labels [OF this, of vs "m_step m"] assms(5,6)
  have "fmlookup (build_payload vs (m_step m) (Some lb)) ''accelerator_labels'' =
          Some (accelerator_labels h t vs)"
    by simp
  with body_logged [OF assms(1,2,3), of self run_id location current_time] assms(4)
  show ?thesis by (simp add: accelerator_labels_def)
qed

theorem accelerator_labels_derived_witness:
  "m_metric_name accelerator_metric = Some ''util'' \<and>
   m_value accelerator_metric = Some (PList [PInt 10, PInt 20, PInt 30]) \<and>
   payload_values_of (PList [PInt 10, PInt 20, PInt 30]) = Some [PInt 10, PInt 20, PInt 30] \<and>
   m_labels accelerator_metric = Some host_labels \<and>
   fmlookup host_labels ''hostname'' = Some ''h'' \<and>
   fmlookup host_labels ''accelerator_type'' = Some ''t'' \<and>
   fmlookup host_labels ''accelerator_labels'' = None \<and>
   (\<exists>en. write_metrics_body example_client ''run'' ''us'' 1000 accelerator_metric = Logged en \<and>
      fmlookup (e_payload en) ''accelerator_labels'' =
        Some (PList [PStr ''h-t0'', PStr ''h-t1'', PStr ''h-t2'']))"
proof -
  have a: "m_metric_name accelerator_metric = Some ''util''"
    and b: "m_value accelerator_metric = Some (PList [PInt 10, PInt 20, PInt 30])"
    and d: "m_labels accelerator_metric = Some host_labels"
    by (simp_all add: accelerator_metric_def)
  have c: "payload_values_of (PList [PInt 10, PInt 20, PInt 30]) =
      Some [PInt 10, PInt 20, PInt 30]" by simp
  have e: "fmlookup host_labels ''hostname'' = Some ''h''"
    and f: "fmlookup host_labels ''accelerator_type'' = Some ''t''"
    and g: "fmlookup host_labels ''accelerator_labels'' = None"
    by (simp_all add: host_labels_def)
  have idx: "[0 ..< length [PInt 10, PInt 20, PInt 30]] = [0, 1, 2]"
    by (simp add: upt_rec)
  have digits: "str_nat 0 = ''0''" "str_nat 1 = ''1''" "str_nat 2 = ''2''"
    by (simp_all add: str_nat.simps digit_char_def)
  from accelerator_labels_derived [OF a b c d e f g, of example_client "''run''" "''us''" 1000]
  have "\<exists>en. write_metrics_body example_client ''run'' ''us'' 1000 accelerator_metric = Logged en \<and>
      fmlookup (e_payload en) ''accelerator_labels'' =
        Some (PList [PStr ''h-t0'', PStr ''h-t1'', PStr ''h-t2''])"
    by (simp only: idx list.map digits append.simps)
  with a b c d e f g show ?thesis by blast
qed

text \<open>
  C6, as stated, fails in its last part: a label whose key is the name of a derived key
  replaces the derived content. With the label \<open>values\<close> = \<open>x\<close> on a record of value 3,
  the payload's \<open>values\<close> is the string \<open>x\<close>, not the list \<open>[3]\<close>.
\<close>

theorem label_replaces_values:
  "m_labels values_label_metric = Some (fmap_of_list [(''values'', ''x'')]) \<and>
   m_value values_label_metric = Some (PInt 3) \<and>
   map (\<lambda>en. fmlookup (e_payload en) ''values'')
       (logged example_client ''run'' ''us'' 1000 values_label_metric) = [Some (PStr ''x'')] \<and>
   PStr ''x'' \<noteq> PList [PInt 3]"
  by (simp add: values_label_metric_def logged_def write_metrics_body_def
        build_payload_def update_labels_def add_step_index_def add_accelerator_labels_def)

text \<open>
  C6, amended. Every key/value pair of a record's labels is a top-level key of the built
  payload, with the label's value. Each derived key that is not also a label key has its
  computed content: \<open>values\<close> the normalized values, \<open>step_index\<close> the step when there
  is one, \<open>accelerator_labels\<close> the derived list when \<open>hostname\<close> and
  \<open>accelerator_type\<close> are both labels. A derived key that is also a label key holds the
  label's value.
\<close>

theorem labels_flattened:
  assumes "m_metric_name m = Some name" and "m_value m = Some v"
    and "payload_values_of v = Some vs"
    and "m_labels m = Some lb"
    and "fmlookup lb k = Some x"
  shows "\<exists>en. write_metrics_body self run_id location current_time m = Logged en \<and>
           fmlookup (e_payload en) k = Some (PStr x) \<and>
           (''values'' |\<notin>| fmdom lb \<longrightarrow>
              fmlookup (e_payload en) ''values'' = Some (PList vs)) \<and>
           (''step_index'' |\<notin>| fmdom lb \<longrightarrow>
              fmlookup (e_payload en) ''step_index'' = map_option PInt (m_step m)) \<and>
           (''accelerator_labels'' |\<notin>| fmdom lb \<longrightarrow>
              fmlookup (e_payload en) ''accelerator_labels'' =
                (case (fmlookup lb ''hostname'', fmlookup lb ''accelerator_type'') of
                   (Some h, Some t) \<Rightarrow> Some (accelerator_labels h t vs)
                 | _ \<Rightarrow> None))"
  using body_logged [OF assms(1,2,3), of self run_id location current_time] assms(4)
    build_payload_label [OF assms(5), of vs "m_step m"]
    build_payload_values [of lb vs "m_step m"]
    build_payload_step_index [of lb vs "m_step m"]
    build_payload_accelerator_labels [of lb vs "m_step m"]
  by simp

theorem labels_flattened_witness:
  "m_metric_name zone_metric = Some ''loss'' \<and> m_value zone_metric = Some (PInt 3) \<and>
   payload_values_of (PInt 3) = Some [PInt 3] \<and>
   m_labels zone_metric = Some (fmap_of_list [(''zone'', ''z'')]) \<and>
   fmlookup (fmap_of_list [(''zone'', ''z'')]) ''zone'' = Some ''z'' \<and>
   ''values'' |\<notin>| fmdom (fmap_of_list [(''zone'', ''z'')]) \<and>
   ''step_index'' |\<notin>| fmdom (fmap_of_list [(''zone'', ''z'')]) \<and>
   ''accelerator_labels'' |\<notin>| fmdom (fmap_of_list [(''zone'', ''z'')]) \<and>
   (\<exists>en. write_metrics_body example_client ''run'' ''us'' 1000 zone_metric = Logged en \<and>
      fmlookup (e_payload en) ''zone'' = Some (PStr ''z'') \<and>
      fmlookup (e_payload en) ''values'' = Some (PList [PInt 3]) \<and>
      fmlookup (e_payload en) ''step_index'' = Some (PInt 7) \<and>
      fmlookup (e_payload en) ''accelerator_labels'' = None)"
proof -
  let ?lb = "fmap_of_list [(''zone'', ''z'')] :: (string, string) fmap"
  have a: "m_metric_name zone_metric = Some ''loss''"
    and b: "m_value zone_metric = Some (PInt 3)"
    and d: "m_labels zone_metric = Some ?lb"
    and s: "m_step zone_metric = Some 7"
    by (simp_all add: zone_metric_def)
  have c: "payload_values_of (PInt 3) = Some [PInt 3]" by simp
  have e: "fmlookup ?lb ''zone'' = Some ''z''" by simp
  have free: "''values'' |\<notin>| fmdom ?lb" "''step_index'' |\<notin>| fmdom ?lb"
    "''accelerator_labels'' |\<notin>| fmdom ?lb"
    by simp_all
  have none: "fmlookup ?lb ''hostname'' = None" by simp
  from labels_flattened [OF a b c d e, of example_client "''run''" "''us''" 1000] free s none
  have "\<exists>en. write_metrics_body example_client ''run'' ''us'' 1000 zone_metric = Logged en \<and>
      fmlookup (e_payload en) ''zone'' = Some (PStr ''z'') \<and>
      fmlookup (e_payload en) ''values'' = Some (PList [PInt 3]) \<and>
      fmlookup (e_payload en) ''step_index'' = Some (PInt 7) \<and>
      fmlookup (e_payload en) ''accelerator_labels'' = None"
    by auto
  with a b c d e free show ?thesis by blast
qed

text \<open>
  C7. When building the batch fails (a record lacks an indexed key) or the flush at the
  exit of the batch scope fails, \<open>write_metrics\<close> raises one \<open>MLDiagnosticError\<close>
  that wraps the underlying exception: its cause is that very exception (the \<open>KeyError\<close>
  of the first record that lacks a key, or else the exception of the sink's flush), and
  its message is the text "Failed to write metrics batch to Cloud Logging: " followed by
  the text of that exception. The sink holds the entries it held before, and the logger
  gets nothing but the warnings for the records skipped before the failure, so no count
  and no per-record outcome is reported.
\<close>

theorem write_metrics_failure_is_aggregate:
  assumes "underlying_failure ev self metrics run_id location w = Some cause"
  shows "write_metrics ev self metrics run_id location w =
           (Inl (MLDiagnosticError
                   (''Failed to write metrics batch to Cloud Logging: '' @ exn_str cause)
                   cause),
            w\<lparr>w_ticks := w_ticks w + 1,
              w_log := w_log w @
                concat (map (warned self run_id location (clock ev (w_ticks w)))
                          (takeWhile has_keys metrics))\<rparr>) \<and>
         w_persisted (snd (write_metrics ev self metrics run_id location w)) = w_persisted w \<and>
         list_all (\<lambda>rec. level_of rec = WARNING)
           (concat (map (warned self run_id location (clock ev (w_ticks w)))
                      (takeWhile has_keys metrics)))"
proof -
  let ?t = "clock ev (w_ticks w)"
  let ?ws = "concat (map (warned self run_id location ?t) (takeWhile has_keys metrics))"
  have lv: "list_all (\<lambda>rec. level_of rec = WARNING) ?ws"
    by (auto simp: list_all_iff dest: warned_level)
  have res: "write_metrics ev self metrics run_id location w =
           (Inl (MLDiagnosticError
                   (''Failed to write metrics batch to Cloud Logging: '' @ exn_str cause)
                   cause),
            w\<lparr>w_ticks := w_ticks w + 1, w_log := w_log w @ ?ws\<rparr>)"
  proof (cases "construction_failure metrics")
    case (Some e)
    with assms have "e = cause" by (simp add: underlying_failure_def)
    with Some show ?thesis
      by (simp add: write_metrics_def datetime_now_def loop_until_failure failed_message_def)
  next
    case None
    then have keys: "\<forall>m\<in>set metrics. has_keys m" by (simp add: construction_failure_None)
    then have tw: "takeWhile has_keys metrics = metrics" by (simp add: takeWhile_eq_all_conv)
    from None assms have "flush ev (batch_entries self run_id location ?t metrics) = Some cause"
      by (simp add: underlying_failure_def)
    then show ?thesis
      by (simp add: write_metrics_all_keys [OF keys] tw failed_message_def)
  qed
  then have "w_persisted (snd (write_metrics ev self metrics run_id location w)) = w_persisted w"
    by simp
  with res lv show ?thesis by blast
qed

theorem write_metrics_failure_is_aggregate_witness:
  "underlying_failure failing_env example_client [good_metric, text_metric] ''run'' ''us''
     example_world = Some (SinkError ''unavailable'') \<and>
   write_metrics failing_env example_client [good_metric, text_metric] ''run'' ''us''
     example_world =
     (Inl (MLDiagnosticError ''Failed to write metrics batch to Cloud Logging: unavailable''
            (SinkError ''unavailable'')),
      \<lparr>w_ticks = 1,
       w_log = [LogRecord WARNING ''Skipping metric %s due to unsupported value type: %s''
                  [PStr ''note'', PType ''str'']],
       w_persisted = []\<rparr>) \<and>
   underlying_failure accepting_env example_client [good_metric, nameless_metric, text_metric]
     ''run'' ''us'' example_world = Some (KeyError ''metric_name'') \<and>
   write_metrics accepting_env example_client [good_metric, nameless_metric, text_metric]
     ''run'' ''us'' example_world =
     (Inl (MLDiagnosticError
            (''Failed to write metrics batch to Cloud Logging: '' @
               [CHR 0x27] @ ''metric_name'' @ [CHR 0x27])
            (KeyError ''metric_name'')),
      \<lparr>w_ticks = 1, w_log = [], w_persisted = []\<rparr>)"
proof -
  have k: "has_keys good_metric" "has_keys text_metric" "\<not> has_keys nameless_metric"
    by (simp_all add: has_keys_def good_metric_def text_metric_def nameless_metric_def)
  have u1: "underlying_failure failing_env example_client [good_metric, text_metric] ''run''
      ''us'' example_world = Some (SinkError ''unavailable'')"
    by (simp add: underlying_failure_def construction_failure_def k failing_env_def)
  have u2: "underlying_failure accepting_env example_client
      [good_metric, nameless_metric, text_metric] ''run'' ''us'' example_world =
      Some (KeyError ''metric_name'')"
  proof -
    have "missing_key nameless_metric = ''metric_name''"
      by (simp add: missing_key_def nameless_metric_def)
    then show ?thesis
      by (simp add: underlying_failure_def construction_failure_def k)
  qed
  have w1: "warned example_client ''run'' ''us'' 1000 good_metric = []"
    "warned example_client ''run'' ''us'' 1000 text_metric =
       [LogRecord WARNING ''Skipping metric %s due to unsupported value type: %s''
          [PStr ''note'', PType ''str'']]"
    by (simp_all add: warned_def write_metrics_body_def good_metric_def text_metric_def)
  have c1: "clock failing_env 0 = 1000"
    and c2: "clock accepting_env 0 = 1000"
    by (simp_all add: failing_env_def accepting_env_def)
  from write_metrics_failure_is_aggregate [OF u1] write_metrics_failure_is_aggregate [OF u2]
    u1 u2
  show ?thesis
    by (simp add: c1 c2 k w1 example_world_def)
qed

text \<open>
  C8 fails on the code. After a successful flush \<open>write_metrics\<close> reports
  \<open>len(metrics)\<close>, the number of records it was given, under the words "Successfully
  written": a batch of one record with the value \<open>"not a number"\<close> is reported as 1
  written metric, while the record was skipped and no entry was written.
\<close>

theorem write_metrics_reports_input_length:
  "fst (write_metrics accepting_env example_client [text_metric] ''run'' ''us''
          example_world) = Inr () \<and>
   w_persisted (snd (write_metrics accepting_env example_client [text_metric] ''run'' ''us''
          example_world)) = [] \<and>
   w_log (snd (write_metrics accepting_env example_client [text_metric] ''run'' ''us''
          example_world)) =
     [LogRecord WARNING ''Skipping metric %s due to unsupported value type: %s''
        [PStr ''note'', PType ''str''],
      LogRecord INFO ''Successfully written %d metrics in batch.'' [PInt 1]] \<and>
   reported_counts (w_log (snd (write_metrics accepting_env example_client [text_metric]
          ''run'' ''us'' example_world))) = [PInt 1]"
  by (simp add: write_metrics_def datetime_now_def batch_commit_def write_metrics_body_def
        accepting_env_def example_world_def text_metric_def)

text \<open>
  C9. The clock is read once, before the loop; every entry that the loop puts into the
  batch, and so every entry that the call adds to the sink, has that reading as its
  timestamp and the severity \<open>INFO\<close>.
\<close>

theorem write_metrics_one_timestamp:
  "w_ticks (snd (write_metrics ev self metrics run_id location w)) = w_ticks w + 1 \<and>
   (\<forall>en \<in> set (fst (snd (write_metrics_loop self run_id location (clock ev (w_ticks w))
                           metrics ([], w_log w)))).
      e_timestamp en = clock ev (w_ticks w) \<and> e_severity en = ''INFO'') \<and>
   (\<exists>es. w_persisted (snd (write_metrics ev self metrics run_id location w)) =
            w_persisted w @ es \<and>
         (\<forall>en\<in>set es. e_timestamp en = clock ev (w_ticks w) \<and> e_severity en = ''INFO''))"
proof -
  let ?t = "clock ev (w_ticks w)"
  obtain res batch lg where
    loop: "write_metrics_loop self run_id location ?t metrics ([], w_log w) = (res, batch, lg)"
    by (cases "write_metrics_loop self run_id location ?t metrics ([], w_log w)") auto
  from loop_extends [OF loop]
  have env: "\<forall>en\<in>set batch. e_timestamp en = ?t \<and> e_severity en = ''INFO''" by auto
  have ticks: "w_ticks (snd (write_metrics ev self metrics run_id location w)) = w_ticks w + 1"
    using loop
    by (simp add: write_metrics_def datetime_now_def batch_commit_def
          split: option.splits)
  have "w_persisted (snd (write_metrics ev self metrics run_id location w)) = w_persisted w @ batch
        \<or> w_persisted (snd (write_metrics ev self metrics run_id location w)) = w_persisted w @ []"
    using loop
    by (simp add: write_metrics_def datetime_now_def batch_commit_def
          split: option.splits)
  with env have "\<exists>es. w_persisted (snd (write_metrics ev self metrics run_id location w)) =
            w_persisted w @ es \<and>
         (\<forall>en\<in>set es. e_timestamp en = ?t \<and> e_severity en = ''INFO'')"
    by (metis empty_iff list.set(1))
  with ticks env loop show ?thesis by simp
qed

theorem write_metrics_one_timestamp_witness:
  "map e_timestamp (w_persisted (snd (write_metrics accepting_env example_client
      [good_metric, text_metric, accelerator_metric] ''run'' ''us'' example_world)))
     = [1000, 1000] \<and>
   list_all (\<lambda>en. e_timestamp en = clock accepting_env 0 \<and> e_severity en = ''INFO'')
     (w_persisted (snd (write_metrics accepting_env example_client
        [good_metric, text_metric, accelerator_metric] ''run'' ''us'' example_world)))"
proof -
  let ?ms = "[good_metric, text_metric, accelerator_metric]"
  let ?w' = "snd (write_metrics accepting_env example_client ?ms ''run'' ''us'' example_world)"
  have two: "map e_timestamp (w_persisted ?w') = [1000, 1000]"
    by (simp add: write_metrics_def datetime_now_def batch_commit_def write_metrics_body_def
          accepting_env_def example_world_def good_metric_def text_metric_def
          accelerator_metric_def)
  from write_metrics_one_timestamp [of accepting_env example_client ?ms "''run''" "''us''"
      example_world]
  obtain es where "w_persisted ?w' = w_persisted example_world @ es"
    and "\<forall>en\<in>set es. e_timestamp en = clock accepting_env (w_ticks example_world) \<and>
           e_severity en = ''INFO''"
    by blast
  then have "\<forall>en \<in> set (w_persisted ?w').
      e_timestamp en = clock accepting_env 0 \<and> e_severity en = ''INFO''"
    by (simp add: example_world_def)
  with two show ?thesis by (simp add: list_all_iff)
qed

text \<open>
  C10. A batch with a dictionary that lacks the key \<open>metric_name\<close> or the key \<open>value\<close>
  fails as a whole, whatever the sink would do: the call raises one \<open>MLDiagnosticError\<close>
  whose cause is the \<open>KeyError\<close> of a missing key, and the sink holds the entries it
  held before, so the entries of the records before the faulty one are dropped too. The
  faulty record is not passed over the way a record with an unsupported value is.
\<close>

theorem write_metrics_missing_key_fails:
  assumes "\<exists>m\<in>set metrics. \<not> has_keys m"
  shows "\<exists>k. (k = ''metric_name'' \<or> k = ''value'') \<and>
           fst (write_metrics ev self metrics run_id location w) =
             Inl (MLDiagnosticError
                    (''Failed to write metrics batch to Cloud Logging: '' @ exn_str (KeyError k))
                    (KeyError k)) \<and>
           w_persisted (snd (write_metrics ev self metrics run_id location w)) = w_persisted w"
proof -
  from write_metrics_missing_key [OF assms, of ev self run_id location w]
  obtain m where
    "fst (write_metrics ev self metrics run_id location w) =
       Inl (MLDiagnosticError (failed_message (KeyError (missing_key m)))
              (KeyError (missing_key m)))"
    and "w_persisted (snd (write_metrics ev self metrics run_id location w)) = w_persisted w"
    by blast
  moreover have "missing_key m = ''metric_name'' \<or> missing_key m = ''value''"
    by (simp add: missing_key_def)
  ultimately show ?thesis unfolding failed_message_def by blast
qed

theorem write_metrics_missing_key_fails_witness:
  "(\<exists>m\<in>set [good_metric, nameless_metric]. \<not> has_keys m) \<and>
   fst (write_metrics accepting_env example_client [good_metric, nameless_metric] ''run'' ''us''
          example_world) =
     Inl (MLDiagnosticError
            (''Failed to write metrics batch to Cloud Logging: '' @ exn_str (KeyError ''metric_name''))
            (KeyError ''metric_name'')) \<and>
   w_persisted (snd (write_metrics accepting_env example_client [good_metric, nameless_metric]
          ''run'' ''us'' example_world)) = []"
proof -
  let ?ms = "[good_metric, nameless_metric]"
  have bad: "\<exists>m\<in>set ?ms. \<not> has_keys m"
    by (simp add: has_keys_def nameless_metric_def)
  from write_metrics_missing_key_fails [OF bad, of accepting_env example_client "''run''"
      "''us''" example_world]
  have pers: "w_persisted (snd (write_metrics accepting_env example_client ?ms ''run'' ''us''
        example_world)) = w_persisted example_world"
    by blast
  have "fst (write_metrics accepting_env example_client ?ms ''run'' ''us'' example_world) =
     Inl (MLDiagnosticError
            (''Failed to write metrics batch to Cloud Logging: '' @ exn_str (KeyError ''metric_name''))
            (KeyError ''metric_name''))"
    by (simp add: write_metrics_def datetime_now_def batch_commit_def write_metrics_body_def
          accepting_env_def example_world_def good_metric_def nameless_metric_def
          failed_message_def)
  with bad pers show ?thesis by (simp add: example_world_def)
qed

end
